theory Spec2Isabelle
  imports Complex_Main "HOL-Library.Multiset"
begin

section \<open>Feature extractor: form of a team over its recent matches\<close>

text \<open>
  A match of the upstream response, with the fields that
  \<^verbatim>\<open>PredictionModel.__calculate_last5_stats\<close> reads:
  \<^verbatim>\<open>match['status']\<close>, \<^verbatim>\<open>match['homeTeam']['id']\<close>,
  \<^verbatim>\<open>match['awayTeam']['id']\<close> and the two entries of
  \<^verbatim>\<open>match['score']['fullTime']\<close>. Python's integers are unbounded, hence \<open>int\<close>.
\<close>

record match_rec =
  status :: string
  homeTeam_id :: int
  awayTeam_id :: int
  fullTime_home :: int
  fullTime_away :: int

text \<open>The dictionary the function returns, key by key in the order it is built.\<close>

record team_form =
  points :: int
  goals_for :: int
  goals_against :: int
  wins :: int
  draws :: int
  losses :: int

definition empty_form :: team_form where
  "empty_form = \<lparr>points = 0, goals_for = 0, goals_against = 0, wins = 0, draws = 0, losses = 0\<rparr>"

text \<open>One pass of the body of the \<^verbatim>\<open>for match in team_data['matches']\<close> loop.\<close>

definition stats_step :: "int \<Rightarrow> team_form \<Rightarrow> match_rec \<Rightarrow> team_form" where
  "stats_step team_id acc m =
     (if status m \<noteq> ''FINISHED'' then acc
      else
        let is_home = (homeTeam_id m = team_id);
            gf = (if is_home then fullTime_home m else fullTime_away m);
            ga = (if is_home then fullTime_away m else fullTime_home m);
            acc1 = acc\<lparr>goals_for := goals_for acc + gf, goals_against := goals_against acc + ga\<rparr>
        in if gf > ga then acc1\<lparr>wins := wins acc1 + 1, points := points acc1 + 3\<rparr>
           else if gf = ga then acc1\<lparr>draws := draws acc1 + 1, points := points acc1 + 1\<rparr>
           else acc1\<lparr>losses := losses acc1 + 1\<rparr>)"

definition calculate_last5_stats :: "int \<Rightarrow> match_rec list \<Rightarrow> team_form" where
  "calculate_last5_stats team_id matches = foldl (stats_step team_id) empty_form matches"

text \<open>
  The words of the specification, as functions of one match: whether it counts, the goals
  the team scored and conceded according to its role, and the result for the team.
\<close>

definition finished :: "match_rec \<Rightarrow> bool" where
  "finished m = (status m = ''FINISHED'')"

definition role_goals_for :: "int \<Rightarrow> match_rec \<Rightarrow> int" where
  "role_goals_for t m = (if homeTeam_id m = t then fullTime_home m else fullTime_away m)"

definition role_goals_against :: "int \<Rightarrow> match_rec \<Rightarrow> int" where
  "role_goals_against t m = (if homeTeam_id m = t then fullTime_away m else fullTime_home m)"

definition is_win :: "int \<Rightarrow> match_rec \<Rightarrow> bool" where
  "is_win t m = (finished m \<and> role_goals_for t m > role_goals_against t m)"

definition is_draw :: "int \<Rightarrow> match_rec \<Rightarrow> bool" where
  "is_draw t m = (finished m \<and> role_goals_for t m = role_goals_against t m)"

definition is_loss :: "int \<Rightarrow> match_rec \<Rightarrow> bool" where
  "is_loss t m = (finished m \<and> role_goals_for t m < role_goals_against t m)"

definition form_spec :: "int \<Rightarrow> match_rec list \<Rightarrow> team_form" where
  "form_spec t ms =
     \<lparr>points = 3 * int (length (filter (is_win t) ms)) + int (length (filter (is_draw t) ms)),
      goals_for = sum_list (map (role_goals_for t) (filter finished ms)),
      goals_against = sum_list (map (role_goals_against t) (filter finished ms)),
      wins = int (length (filter (is_win t) ms)),
      draws = int (length (filter (is_draw t) ms)),
      losses = int (length (filter (is_loss t) ms))\<rparr>"

definition add_form :: "team_form \<Rightarrow> team_form \<Rightarrow> team_form" where
  "add_form a b =
     \<lparr>points = points a + points b, goals_for = goals_for a + goals_for b,
      goals_against = goals_against a + goals_against b, wins = wins a + wins b,
      draws = draws a + draws b, losses = losses a + losses b\<rparr>"

section \<open>Resilient storage gateway: the retry decorator\<close>

text \<open>
  \<^verbatim>\<open>retry_on_connection_error(max_retries, delay)\<close> of
  \<^verbatim>\<open>Persistence/PostgresPredictionStorage.py\<close>. The wrapped coroutine is an effectful
  operation; what it does on its \<open>k\<close>-th call is given as a function of the attempt number.
  An attempt returns a value, raises a connection error (caught by the
  \<^verbatim>\<open>except (asyncpg.PostgresConnectionError, ConnectionError)\<close> clause), or raises
  any other exception, which leaves the wrapper at once. Time is made explicit: the wrapper
  returns the list of the arguments of its \<^verbatim>\<open>asyncio.sleep\<close> calls, in order. The
  delay is a Python float, idealised as a real number.
\<close>

datatype ('a, 'e) attempt = Returns 'a | ConnectionFailure 'e | OtherFailure 'e

text \<open>
  The wrapper returns, re-raises an exception of the operation, or, when the loop body never
  ran, executes \<^verbatim>\<open>raise None\<close>, which is a \<^verbatim>\<open>TypeError\<close> in Python.
\<close>

datatype ('a, 'e) wrapped = Return 'a | Raise 'e | RaiseTypeError

fun retry_loop ::
  "(int \<Rightarrow> ('a, 'e) attempt) \<Rightarrow> int \<Rightarrow> real \<Rightarrow> int list \<Rightarrow> 'e option \<Rightarrow> real list
     \<Rightarrow> ('a, 'e) wrapped \<times> real list" where
  "retry_loop func max_retries delay [] last_exception slept =
     (case last_exception of None \<Rightarrow> (RaiseTypeError, slept) | Some e \<Rightarrow> (Raise e, slept))"
| "retry_loop func max_retries delay (attempt # rest) last_exception slept =
     (case func attempt of
        Returns v \<Rightarrow> (Return v, slept)
      | OtherFailure e \<Rightarrow> (Raise e, slept)
      | ConnectionFailure e \<Rightarrow>
          (if attempt < max_retries
           then retry_loop func max_retries delay rest (Some e) (slept @ [delay * of_int attempt])
           else retry_loop func max_retries delay rest (Some e) slept))"

definition retry_on_connection_error ::
  "int \<Rightarrow> real \<Rightarrow> (int \<Rightarrow> ('a, 'e) attempt) \<Rightarrow> ('a, 'e) wrapped \<times> real list" where
  "retry_on_connection_error max_retries delay func =
     retry_loop func max_retries delay [1..max_retries] None []"

section \<open>Prediction store\<close>

subsection \<open>Ratings\<close>

text \<open>
  The ratings relation is created outside the sources at hand; both stores read it with
  \<^verbatim>\<open>SELECT elo FROM eloscores WHERE name = ?\<close>. It is modelled as the list of its
  rows (name, rating), a rating being numeric as the specification has it. The query
  yields the ratings of the matching rows in table order; \<^verbatim>\<open>fetchone\<close> and
  \<^verbatim>\<open>fetchval\<close> take the first one or \<^verbatim>\<open>None\<close>.
\<close>

type_synonym elo_table = "(string \<times> real) list"

definition select_elo :: "elo_table \<Rightarrow> string \<Rightarrow> real list" where
  "select_elo tbl team = map snd (filter (\<lambda>r. fst r = team) tbl)"

definition fetchone :: "'a list \<Rightarrow> 'a option" where
  "fetchone rs = (case rs of [] \<Rightarrow> None | r # _ \<Rightarrow> Some r)"

definition sqlite_get_elo :: "elo_table \<Rightarrow> string \<Rightarrow> real" where
  "sqlite_get_elo tbl team =
     (case fetchone (select_elo tbl team) of Some row0 \<Rightarrow> row0 | None \<Rightarrow> 1500.0)"

definition pg_get_elo :: "elo_table \<Rightarrow> string \<Rightarrow> real" where
  "pg_get_elo tbl team =
     (let val = fetchone (select_elo tbl team)
      in if val \<noteq> None then the val else 1500.0)"

subsection \<open>The predictions relation\<close>

text \<open>
  A row of \<^verbatim>\<open>predictions\<close>, column by column as in the
  \<^verbatim>\<open>CREATE TABLE\<close> statement of both stores (\<open>row_id\<close> is the column
  \<^verbatim>\<open>id\<close>). The relation is the list of its rows in insertion order together with the
  counter behind the generated \<^verbatim>\<open>id\<close>.
\<close>

record prediction_row =
  row_id :: int
  match_id :: int
  model :: string
  home_id :: int
  home_name :: string
  home_xg :: real
  away_id :: int
  away_name :: string
  away_xg :: real
  home_p :: real
  draw_p :: real
  away_p :: real
  real_home_score :: int
  real_away_score :: int

record predictions_db =
  rows :: "prediction_row list"
  id_seq :: int

datatype storage_error = IntegrityError | UniqueViolationError

definition key_exists :: "predictions_db \<Rightarrow> int \<Rightarrow> string \<Rightarrow> bool" where
  "key_exists db mid mk = (\<exists>r \<in> set (rows db). match_id r = mid \<and> model r = mk)"

text \<open>
  The row an \<^verbatim>\<open>INSERT\<close> of the eleven supplied columns creates: the generated
  \<^verbatim>\<open>id\<close> and the two defaults \<^verbatim>\<open>-1\<close> complete it.
\<close>

definition new_row ::
  "int \<Rightarrow> int \<Rightarrow> string \<Rightarrow> int \<Rightarrow> string \<Rightarrow> real \<Rightarrow> int \<Rightarrow> string \<Rightarrow> real \<Rightarrow> real \<Rightarrow> real \<Rightarrow> real
     \<Rightarrow> prediction_row" where
  "new_row i mid mk hid hname hxg aid aname axg hp dp ap =
     \<lparr>row_id = i, match_id = mid, model = mk, home_id = hid, home_name = hname, home_xg = hxg,
      away_id = aid, away_name = aname, away_xg = axg, home_p = hp, draw_p = dp, away_p = ap,
      real_home_score = -1, real_away_score = -1\<rparr>"

text \<open>
  SQLite: a plain \<^verbatim>\<open>INSERT\<close>. The constraint \<^verbatim>\<open>UNIQUE(match_id, model)\<close> makes
  the statement fail with \<^verbatim>\<open>IntegrityError\<close> and leaves the relation as it was.
\<close>

definition sqlite_execute_insert ::
  "predictions_db \<Rightarrow> int \<Rightarrow> string \<Rightarrow> int \<Rightarrow> string \<Rightarrow> real \<Rightarrow> int \<Rightarrow> string \<Rightarrow> real \<Rightarrow> real \<Rightarrow> real \<Rightarrow> real
     \<Rightarrow> storage_error + predictions_db" where
  "sqlite_execute_insert db mid mk hid hname hxg aid aname axg hp dp ap =
     (if key_exists db mid mk then Inl IntegrityError
      else Inr \<lparr>rows = rows db @ [new_row (id_seq db + 1) mid mk hid hname hxg aid aname axg hp dp ap],
               id_seq = id_seq db + 1\<rparr>)"

text \<open>
  \<^verbatim>\<open>SQLitePredictionStorage.insert_prediction\<close>, with the parameters in the order of
  the source. The result is what the call returns or raises, and the relation afterwards.
\<close>

definition sqlite_insert_prediction ::
  "predictions_db \<Rightarrow> int \<Rightarrow> string \<Rightarrow> int \<Rightarrow> real \<Rightarrow> int \<Rightarrow> real \<Rightarrow> real \<Rightarrow> real \<Rightarrow> real \<Rightarrow> string \<Rightarrow> string
     \<Rightarrow> (storage_error + bool) \<times> predictions_db" where
  "sqlite_insert_prediction db mid mk hid hxg aid axg hp dp ap hname aname =
     (case sqlite_execute_insert db mid mk hid hname hxg aid aname axg hp dp ap of
        Inr db' \<Rightarrow> (Inr True, db')
      | Inl IntegrityError \<Rightarrow> (Inr False, db)
      | Inl e \<Rightarrow> (Inl e, db))"

text \<open>
  PostgreSQL: \<^verbatim>\<open>INSERT ... ON CONFLICT (match_id, model) DO NOTHING\<close>. On a conflict
  the statement inserts nothing and completes normally with the status
  \<^verbatim>\<open>INSERT 0 0\<close>; it does not raise. The sequence behind \<^verbatim>\<open>SERIAL\<close> advances
  either way.
\<close>

definition pg_execute_insert ::
  "predictions_db \<Rightarrow> int \<Rightarrow> string \<Rightarrow> int \<Rightarrow> string \<Rightarrow> real \<Rightarrow> int \<Rightarrow> string \<Rightarrow> real \<Rightarrow> real \<Rightarrow> real \<Rightarrow> real
     \<Rightarrow> storage_error + string \<times> predictions_db" where
  "pg_execute_insert db mid mk hid hname hxg aid aname axg hp dp ap =
     (if key_exists db mid mk then Inr (''INSERT 0 0'', db\<lparr>id_seq := id_seq db + 1\<rparr>)
      else Inr (''INSERT 0 1'',
                \<lparr>rows = rows db @ [new_row (id_seq db + 1) mid mk hid hname hxg aid aname axg hp dp ap],
                 id_seq = id_seq db + 1\<rparr>))"

text \<open>
  \<^verbatim>\<open>PostgresPredictionStorage.insert_prediction\<close> on an acquired connection: the
  status of \<^verbatim>\<open>execute\<close> is dropped and \<^verbatim>\<open>True\<close> returned;
  \<^verbatim>\<open>False\<close> is returned in the handler of \<^verbatim>\<open>UniqueViolationError\<close>, whose
  transaction is rolled back.
\<close>

definition pg_insert_prediction ::
  "predictions_db \<Rightarrow> int \<Rightarrow> string \<Rightarrow> int \<Rightarrow> real \<Rightarrow> int \<Rightarrow> real \<Rightarrow> real \<Rightarrow> real \<Rightarrow> real \<Rightarrow> string \<Rightarrow> string
     \<Rightarrow> (storage_error + bool) \<times> predictions_db" where
  "pg_insert_prediction db mid mk hid hxg aid axg hp dp ap hname aname =
     (case pg_execute_insert db mid mk hid hname hxg aid aname axg hp dp ap of
        Inr (_, db') \<Rightarrow> (Inr True, db')
      | Inl UniqueViolationError \<Rightarrow> (Inr False, db)
      | Inl e \<Rightarrow> (Inl e, db))"

subsection \<open>Python string operations on a command status\<close>

text \<open>
  \<^verbatim>\<open>update_prediction_with_score\<close> of the PostgreSQL store reads the number of
  affected rows out of the status string of \<^verbatim>\<open>execute\<close> with
  \<^verbatim>\<open>startswith\<close>, \<^verbatim>\<open>split\<close>, the index \<^verbatim>\<open>[-1]\<close> and
  \<^verbatim>\<open>int\<close>. The indexing raises \<^verbatim>\<open>IndexError\<close> on an empty list;
  \<^verbatim>\<open>int\<close> is modelled on unsigned decimal numerals, the form a status carries, and
  raises \<^verbatim>\<open>ValueError\<close> on anything else.
\<close>

datatype py_error = ValueError | IndexError

definition py_startswith :: "string \<Rightarrow> string \<Rightarrow> bool" where
  "py_startswith s p = (take (length p) s = p)"

definition is_space :: "char \<Rightarrow> bool" where
  "is_space c = (of_char c \<in> {9, 10, 11, 12, 13, 28, 29, 30, 31, 32 :: nat})"

fun split_ws :: "string \<Rightarrow> string \<Rightarrow> string list" where
  "split_ws cur [] = (if cur = [] then [] else [cur])"
| "split_ws cur (c # cs) =
     (if is_space c then (if cur = [] then split_ws [] cs else cur # split_ws [] cs)
      else split_ws (cur @ [c]) cs)"

definition py_split :: "string \<Rightarrow> string list" where
  "py_split s = split_ws [] s"

definition py_last :: "'a list \<Rightarrow> py_error + 'a" where
  "py_last xs = (if xs = [] then Inl IndexError else Inr (last xs))"

definition is_digit :: "char \<Rightarrow> bool" where
  "is_digit c = (48 \<le> (of_char c :: nat) \<and> (of_char c :: nat) \<le> 57)"

definition digit_value :: "char \<Rightarrow> nat" where
  "digit_value c = of_char c - 48"

definition py_int :: "string \<Rightarrow> py_error + int" where
  "py_int s =
     (if s \<noteq> [] \<and> list_all is_digit s
      then Inr (int (foldl (\<lambda>a c. 10 * a + digit_value c) 0 s))
      else Inl ValueError)"

text \<open>The decimal numeral of a row count, as the server prints it.\<close>

definition digit_char :: "nat \<Rightarrow> char" where
  "digit_char d = char_of (48 + d)"

fun decimal :: "nat \<Rightarrow> string" where
  "decimal n = (if n < 10 then [digit_char n] else decimal (n div 10) @ [digit_char (n mod 10)])"

declare decimal.simps [simp del]

definition update_status :: "nat \<Rightarrow> string" where
  "update_status n = ''UPDATE '' @ decimal n"

subsection \<open>Score backfill\<close>

text \<open>
  \<^verbatim>\<open>UPDATE predictions SET real_home_score = ?, real_away_score = ? WHERE match_id = ?\<close>:
  every row with the given \<^verbatim>\<open>match_id\<close> gets both scores; the statement reports
  the number of rows the \<^verbatim>\<open>WHERE\<close> clause matched.
\<close>

definition set_scores :: "int \<Rightarrow> int \<Rightarrow> int \<Rightarrow> prediction_row \<Rightarrow> prediction_row" where
  "set_scores hs aws mid r =
     (if match_id r = mid then r\<lparr>real_home_score := hs, real_away_score := aws\<rparr> else r)"

definition execute_update :: "predictions_db \<Rightarrow> int \<Rightarrow> int \<Rightarrow> int \<Rightarrow> nat \<times> predictions_db" where
  "execute_update db hs aws mid =
     (length (filter (\<lambda>r. match_id r = mid) (rows db)),
      db\<lparr>rows := map (set_scores hs aws mid) (rows db)\<rparr>)"

text \<open>
  \<^verbatim>\<open>SQLitePredictionStorage.update_prediction_with_score\<close>:
  \<^verbatim>\<open>cursor.rowcount > 0\<close> after the commit.
\<close>

definition sqlite_update_prediction_with_score ::
  "predictions_db \<Rightarrow> int \<Rightarrow> int \<Rightarrow> int \<Rightarrow> bool \<times> predictions_db" where
  "sqlite_update_prediction_with_score db mid home_score away_score =
     (let (rowcount, db') = execute_update db home_score away_score mid
      in (rowcount > 0, db'))"

text \<open>
  \<^verbatim>\<open>PostgresPredictionStorage.update_prediction_with_score\<close> on an acquired
  connection. The status of an update is \<^verbatim>\<open>UPDATE n\<close> (the comment in the
  source says so). An exception inside the transaction block would roll the update back.
\<close>

definition pg_update_prediction_with_score ::
  "predictions_db \<Rightarrow> int \<Rightarrow> int \<Rightarrow> int \<Rightarrow> (py_error + bool) \<times> predictions_db" where
  "pg_update_prediction_with_score db mid home_score away_score =
     (let (n, db') = execute_update db home_score away_score mid;
          result = update_status n
      in if py_startswith result ''UPDATE''
         then (case py_last (py_split result) of
                 Inl e \<Rightarrow> (Inl e, db)
               | Inr w \<Rightarrow> (case py_int w of
                             Inl e \<Rightarrow> (Inl e, db)
                           | Inr k \<Rightarrow> (Inr (k > 0), db')))
         else (Inr False, db'))"

section \<open>Outcome probability engine\<close>

text \<open>
  Floats are idealised as real numbers throughout: rounding, overflow and the order in which
  numpy adds are outside the model. \<^verbatim>\<open>scipy.stats.poisson.pmf(k, mu)\<close> is a library
  function; for \<open>mu \<ge> 0\<close> it is the Poisson probability mass function, which is what
  \<open>poisson_pmf\<close> computes (with \<open>0 ^ 0 = 1\<close>, so that \<open>mu = 0\<close> puts all mass on
  \<open>k = 0\<close>, as the library does). For \<open>mu < 0\<close> the library returns \<^verbatim>\<open>nan\<close>; the
  caller below keeps that case apart.
\<close>

definition poisson_pmf :: "nat \<Rightarrow> real \<Rightarrow> real" where
  "poisson_pmf k mu = mu ^ k * exp (- mu) / fact k"

text \<open>
  \<^verbatim>\<open>PredictionModel.__match_probabilities\<close>: the two nested loops fill row \<open>i\<close>,
  column \<open>j\<close> of a \<open>(max_goals + 1) \<times> (max_goals + 1)\<close> array, here the list of its rows.
\<close>

definition match_probabilities :: "real \<Rightarrow> real \<Rightarrow> nat \<Rightarrow> real list list" where
  "match_probabilities l_home l_away max_goals =
     map (\<lambda>i. map (\<lambda>j. poisson_pmf i l_home * poisson_pmf j l_away) [0..<max_goals + 1])
       [0..<max_goals + 1]"

text \<open>
  The numpy operations of \<^verbatim>\<open>__make_prediction\<close> on a two-dimensional array:
  \<^verbatim>\<open>np.tril(m, k)\<close> keeps the entries with \<open>j \<le> i + k\<close> and zeroes the others,
  \<^verbatim>\<open>np.triu(m, k)\<close> keeps those with \<open>j \<ge> i + k\<close>, \<^verbatim>\<open>.sum()\<close> adds all
  entries and \<^verbatim>\<open>np.trace\<close> adds the main diagonal.
\<close>

definition np_tril :: "real list list \<Rightarrow> int \<Rightarrow> real list list" where
  "np_tril m k =
     map (\<lambda>i. map (\<lambda>j. if int j \<le> int i + k then m ! i ! j else 0) [0..<length (m ! i)])
       [0..<length m]"

definition np_triu :: "real list list \<Rightarrow> int \<Rightarrow> real list list" where
  "np_triu m k =
     map (\<lambda>i. map (\<lambda>j. if int j \<ge> int i + k then m ! i ! j else 0) [0..<length (m ! i)])
       [0..<length m]"

definition np_sum :: "real list list \<Rightarrow> real" where
  "np_sum m = sum_list (map sum_list m)"

definition np_trace :: "real list list \<Rightarrow> real" where
  "np_trace m =
     (case m of [] \<Rightarrow> 0
      | r # _ \<Rightarrow> sum_list (map (\<lambda>i. m ! i ! i) [0..<min (length m) (length r)]))"

text \<open>
  Lines 427 to 430 of \<^verbatim>\<open>__make_prediction\<close>, with the bound on the goals as a
  parameter: the probabilities of a home win, a draw and an away win, in this order. The
  source calls \<^verbatim>\<open>__match_probabilities\<close> with its default \<^verbatim>\<open>max_goals = 10\<close>.
\<close>

definition outcome_probabilities :: "real \<Rightarrow> real \<Rightarrow> nat \<Rightarrow> real \<times> real \<times> real" where
  "outcome_probabilities l_home l_away max_goals =
     (let probs = match_probabilities l_home l_away max_goals;
          p_home_win = np_sum (np_tril probs (- 1));
          p_away_win = np_sum (np_triu probs 1);
          p_draw = np_trace probs
      in (p_home_win, p_draw, p_away_win))"

section \<open>Ensemble predictor\<close>

text \<open>
  Exceptions, as the handlers of \<^verbatim>\<open>PredictionModel\<close> tell them apart:
  \<^verbatim>\<open>aiohttp.ClientResponseError\<close> with its HTTP status, and any other subclass of
  \<^verbatim>\<open>Exception\<close>; both carry the text \<^verbatim>\<open>str(e)\<close>.
\<close>

datatype py_exception = ClientResponseError int string | OtherException string

text \<open>
  A Python float that may be \<^verbatim>\<open>nan\<close>: the mean of an empty array and the Poisson
  mass at a negative rate are \<^verbatim>\<open>nan\<close>, not exceptions.
\<close>

datatype pyfloat = Finite real | NaN

text \<open>
  The artifacts on disk, read-only: the transform of the fitted scaler
  (\<^verbatim>\<open>scaler.pkl\<close>) and, for the path of a regression artifact, the scalar its
  \<^verbatim>\<open>predict\<close> returns on a feature vector. The registry \<^verbatim>\<open>ml_models\<close> is the
  dictionary of \<^verbatim>\<open>Application.py\<close> in insertion order: a key, the two paths (home,
  away) and a description.
\<close>

record artifacts =
  scaler_transform :: "real list \<Rightarrow> real list"
  model_predict :: "string \<Rightarrow> real list \<Rightarrow> real"

type_synonym registry = "(string \<times> (string \<times> string) \<times> string) list"

text \<open>
  The loop of \<^verbatim>\<open>_run_prediction\<close> over \<^verbatim>\<open>enumerate(self.__ml_models.items())\<close>.
  \<^verbatim>\<open>code[i]\<close> raises \<^verbatim>\<open>IndexError\<close> when the selection is shorter than the
  registry; a flag counts when it is truthy, that is non-zero.
\<close>

fun run_models ::
  "artifacts \<Rightarrow> int list \<Rightarrow> real list \<Rightarrow> nat \<Rightarrow> registry \<Rightarrow> real list \<Rightarrow> real list
     \<Rightarrow> py_exception + real list \<times> real list" where
  "run_models art code features_scaled i [] home_list away_list = Inr (home_list, away_list)"
| "run_models art code features_scaled i ((key, (paths, descr)) # rest) home_list away_list =
     (if i \<ge> length code then Inl (OtherException ''list index out of range'')
      else if code ! i \<noteq> 0
      then run_models art code features_scaled (i + 1) rest
             (home_list @ [model_predict art (fst paths) features_scaled])
             (away_list @ [model_predict art (snd paths) features_scaled])
      else run_models art code features_scaled (i + 1) rest home_list away_list)"

definition run_prediction ::
  "artifacts \<Rightarrow> registry \<Rightarrow> int list \<Rightarrow> real list \<Rightarrow> py_exception + real list \<times> real list" where
  "run_prediction art ml_models code features =
     (let features_scaled = scaler_transform art features
      in run_models art code features_scaled 0 ml_models [] [])"

definition np_mean :: "real list \<Rightarrow> pyfloat" where
  "np_mean xs = (if xs = [] then NaN else Finite (sum_list xs / real (length xs)))"

text \<open>The dictionary \<^verbatim>\<open>__make_prediction\<close> returns.\<close>

record prediction =
  Expected_Home_Goals :: pyfloat
  Expected_Away_Goals :: pyfloat
  P_HomeWin :: pyfloat
  P_Draw :: pyfloat
  P_AwayWin :: pyfloat

definition make_prediction ::
  "artifacts \<Rightarrow> registry \<Rightarrow> int list \<Rightarrow> real list \<Rightarrow> py_exception + prediction" where
  "make_prediction art ml_models code features =
     (case run_prediction art ml_models code features of
        Inl e \<Rightarrow> Inl e
      | Inr (home_list, away_list) \<Rightarrow>
          (case (np_mean home_list, np_mean away_list) of
             (Finite h, Finite a) \<Rightarrow>
               if 0 \<le> h \<and> 0 \<le> a
               then (case outcome_probabilities h a 10 of
                       (p_home_win, p_draw, p_away_win) \<Rightarrow>
                         Inr \<lparr>Expected_Home_Goals = Finite h, Expected_Away_Goals = Finite a,
                              P_HomeWin = Finite p_home_win, P_Draw = Finite p_draw,
                              P_AwayWin = Finite p_away_win\<rparr>)
               else Inr \<lparr>Expected_Home_Goals = Finite h, Expected_Away_Goals = Finite a,
                         P_HomeWin = NaN, P_Draw = NaN, P_AwayWin = NaN\<rparr>
           | (h, a) \<Rightarrow>
               Inr \<lparr>Expected_Home_Goals = h, Expected_Away_Goals = a,
                    P_HomeWin = NaN, P_Draw = NaN, P_AwayWin = NaN\<rparr>))"

text \<open>
  The words of the specification: the registry entries a selection picks, and the
  arithmetic mean.
\<close>

definition selected :: "registry \<Rightarrow> int list \<Rightarrow> registry" where
  "selected ml_models code = map fst (filter (\<lambda>(entry, flag). flag \<noteq> 0) (zip ml_models code))"

definition home_artifact :: "string \<times> (string \<times> string) \<times> string \<Rightarrow> string" where
  "home_artifact entry = fst (fst (snd entry))"

definition away_artifact :: "string \<times> (string \<times> string) \<times> string \<Rightarrow> string" where
  "away_artifact entry = snd (fst (snd entry))"

definition arithmetic_mean :: "real list \<Rightarrow> real" where
  "arithmetic_mean xs = sum_list xs / real (length xs)"

section \<open>Prediction pipeline\<close>

text \<open>
  \<^verbatim>\<open>PredictionModel\<close> talks to two injected collaborators, \<^verbatim>\<open>IApi\<close> and
  \<^verbatim>\<open>IPredictionStorage\<close>, and downloads images. Each of their calls returns or
  raises; since they are effectful, the \<open>k\<close>-th call of a method may differ from the one
  before, so the call number within the running method is an argument. The endpoints are
  the three URL patterns the two methods below build; the date window in the query string
  comes from the clock and is left out.
\<close>

datatype endpoint =
  MatchEndpoint int
  | TeamRecentMatchesEndpoint int
  | TeamUpcomingMatchesEndpoint int

text \<open>
  A match of the list \<^verbatim>\<open>fetch_matches\<close> reads, with the fields it reads, and the
  dictionary it builds for it (its keys prefixed with \<open>e_\<close>).
\<close>

record upcoming_match =
  u_id :: int
  u_utcDate :: string
  u_competition_name :: string
  u_homeTeam_id :: int
  u_homeTeam_shortName :: string
  u_homeTeam_crest :: string
  u_awayTeam_id :: int
  u_awayTeam_shortName :: string
  u_awayTeam_crest :: string

record match_entry =
  e_id :: int
  e_home_name :: string
  e_home_emblem :: string
  e_away_name :: string
  e_away_emblem :: string
  e_date :: string
  e_competition :: string
  e_home_id :: int
  e_away_id :: int

text \<open>
  The parsed JSON of a response, by the shape the code subscripts: a single match with the
  two short names, a dictionary with a \<^verbatim>\<open>matches\<close> list of either kind, or anything
  else, which carries the text of the exception that reading it raises.
\<close>

datatype api_data =
  MatchData string string
  | RecentMatchesData "match_rec list"
  | UpcomingMatchesData "upcoming_match list"
  | Malformed string

record model_env =
  api_get :: "nat \<Rightarrow> endpoint \<Rightarrow> py_exception + api_data"
  storage_get_elo :: "nat \<Rightarrow> string \<Rightarrow> py_exception + real"
  storage_insert_prediction ::
    "int \<Rightarrow> string \<Rightarrow> int \<Rightarrow> pyfloat \<Rightarrow> int \<Rightarrow> pyfloat \<Rightarrow> pyfloat \<Rightarrow> pyfloat \<Rightarrow> pyfloat
       \<Rightarrow> string \<Rightarrow> string \<Rightarrow> py_exception + bool"
  fetch_image :: "string \<Rightarrow> py_exception + string"
  artifacts_of :: artifacts
  registry_of :: registry

text \<open>Sequencing: an exception of one step skips the steps after it.\<close>

definition bind_exc :: "'e + 'a \<Rightarrow> ('a \<Rightarrow> 'e + 'b) \<Rightarrow> 'e + 'b" where
  "bind_exc r f = (case r of Inl e \<Rightarrow> Inl e | Inr v \<Rightarrow> f v)"

definition key_error :: "string \<Rightarrow> py_exception" where
  "key_error k = OtherException ([CHR 0x27] @ k @ [CHR 0x27])"

definition short_names :: "api_data \<Rightarrow> py_exception + string \<times> string" where
  "short_names match_data =
     (case match_data of
        MatchData home_short away_short \<Rightarrow> Inr (home_short, away_short)
      | Malformed msg \<Rightarrow> Inl (OtherException msg)
      | _ \<Rightarrow> Inl (key_error ''homeTeam''))"

definition recent_matches :: "api_data \<Rightarrow> py_exception + match_rec list" where
  "recent_matches team_data =
     (case team_data of
        RecentMatchesData ms \<Rightarrow> Inr ms
      | Malformed msg \<Rightarrow> Inl (OtherException msg)
      | MatchData _ _ \<Rightarrow> Inl (key_error ''matches'')
      | UpcomingMatchesData _ \<Rightarrow> Inl (key_error ''score''))"

definition upcoming_matches :: "api_data \<Rightarrow> py_exception + upcoming_match list" where
  "upcoming_matches data =
     (case data of
        UpcomingMatchesData ms \<Rightarrow> Inr ms
      | Malformed msg \<Rightarrow> Inl (OtherException msg)
      | MatchData _ _ \<Rightarrow> Inl (key_error ''matches'')
      | RecentMatchesData _ \<Rightarrow> Inl (key_error ''utcDate''))"

text \<open>What a public method of \<^verbatim>\<open>PredictionModel\<close> hands back to its caller.\<close>

datatype 'a payload = Data 'a | Messages "string list"

datatype 'a returned = Returned bool "'a payload" | ReturnedNone

definition rate_limit_message :: string where
  "rate_limit_message =
     ''Too many requests '' @ [CHR 0xE2, CHR 0x80, CHR 0x93]
       @ '' you can make up to 10 API calls per minute.''"

subsection \<open>\<^verbatim>\<open>fetch_matches\<close>\<close>

text \<open>
  The image tasks of all matches are created first and awaited match by match, so the
  first exception seen is that of the first match with a failing download; within a match
  the home crest is taken before the away crest.
\<close>

fun collect_results ::
  "(string \<Rightarrow> py_exception + string) \<Rightarrow> upcoming_match list \<Rightarrow> py_exception + match_entry list" where
  "collect_results fetch [] = Inr []"
| "collect_results fetch (m # ms) =
     (case fetch (u_homeTeam_crest m) of
        Inl e \<Rightarrow> Inl e
      | Inr home_img \<Rightarrow>
          (case fetch (u_awayTeam_crest m) of
             Inl e \<Rightarrow> Inl e
           | Inr away_img \<Rightarrow>
               (case collect_results fetch ms of
                  Inl e \<Rightarrow> Inl e
                | Inr results \<Rightarrow>
                    Inr (\<lparr>e_id = u_id m, e_home_name = u_homeTeam_shortName m,
                          e_home_emblem = home_img, e_away_name = u_awayTeam_shortName m,
                          e_away_emblem = away_img, e_date = u_utcDate m,
                          e_competition = u_competition_name m, e_home_id = u_homeTeam_id m,
                          e_away_id = u_awayTeam_id m\<rparr> # results))))"

definition fetch_matches_body :: "model_env \<Rightarrow> int \<Rightarrow> py_exception + match_entry list" where
  "fetch_matches_body env team_code =
     bind_exc (api_get env 0 (TeamUpcomingMatchesEndpoint team_code)) (\<lambda>data.
     bind_exc (upcoming_matches data) (\<lambda>matches_data.
     bind_exc (collect_results (fetch_image env) matches_data) (\<lambda>results.
     Inr (take 20 results))))"

text \<open>
  The \<^verbatim>\<open>try\<close> statement around the body has two handlers. The first catches
  \<^verbatim>\<open>ClientResponseError\<close> and returns only under \<^verbatim>\<open>if e.status == 429\<close>; with
  another status the handler ends without a \<^verbatim>\<open>return\<close>, and so does the method. The
  second catches every other \<^verbatim>\<open>Exception\<close>.
\<close>

definition fetch_matches :: "model_env \<Rightarrow> int \<Rightarrow> match_entry list returned" where
  "fetch_matches env team_code =
     (case fetch_matches_body env team_code of
        Inr results \<Rightarrow> Returned True (Data results)
      | Inl (ClientResponseError http_status msg) \<Rightarrow>
          (if http_status = 429 then Returned False (Messages [rate_limit_message]) else ReturnedNone)
      | Inl (OtherException msg) \<Rightarrow> Returned False (Messages [msg]))"

subsection \<open>\<^verbatim>\<open>predict_scores\<close>\<close>

definition py_str_int :: "int \<Rightarrow> string" where
  "py_str_int i = (if i < 0 then ''-'' @ decimal (nat (- i)) else decimal (nat i))"

definition code_str :: "int list \<Rightarrow> string" where
  "code_str code = concat (map py_str_int code)"

definition form_values :: "team_form \<Rightarrow> real list" where
  "form_values s =
     map real_of_int [points s, goals_for s, goals_against s, wins s, draws s, losses s]"

definition predict_scores_body ::
  "model_env \<Rightarrow> int \<Rightarrow> int \<Rightarrow> int \<Rightarrow> int list \<Rightarrow> py_exception + prediction" where
  "predict_scores_body env hid aid mid code =
     bind_exc (api_get env 0 (MatchEndpoint mid)) (\<lambda>match_data.
     bind_exc (short_names match_data) (\<lambda>(hname, aname).
     bind_exc (storage_get_elo env 0 hname) (\<lambda>home_elo.
     bind_exc (storage_get_elo env 1 aname) (\<lambda>away_elo.
     bind_exc (api_get env 1 (TeamRecentMatchesEndpoint hid)) (\<lambda>home_team_data.
     bind_exc (api_get env 2 (TeamRecentMatchesEndpoint aid)) (\<lambda>away_team_data.
     bind_exc (recent_matches home_team_data) (\<lambda>home_matches.
     bind_exc (recent_matches away_team_data) (\<lambda>away_matches.
       let home_stats = calculate_last5_stats hid home_matches;
           away_stats = calculate_last5_stats aid away_matches;
           features = [home_elo, away_elo] @ form_values home_stats @ form_values away_stats
       in
     bind_exc (make_prediction (artifacts_of env) (registry_of env) code features) (\<lambda>predictions.
     bind_exc (storage_insert_prediction env mid (code_str code) hid
                 (Expected_Home_Goals predictions) aid (Expected_Away_Goals predictions)
                 (P_HomeWin predictions) (P_Draw predictions) (P_AwayWin predictions)
                 hname aname) (\<lambda>inserted.
     Inr predictions))))))))))"

definition predict_scores ::
  "model_env \<Rightarrow> int \<Rightarrow> int \<Rightarrow> int \<Rightarrow> int list \<Rightarrow> prediction returned" where
  "predict_scores env hid aid mid code =
     (case predict_scores_body env hid aid mid code of
        Inr predictions \<Rightarrow> Returned True (Data predictions)
      | Inl (ClientResponseError http_status msg) \<Rightarrow>
          (if http_status = 429 then Returned False (Messages [rate_limit_message]) else ReturnedNone)
      | Inl (OtherException msg) \<Rightarrow> Returned False (Messages [msg]))"

subsection \<open>Properties of the feature extractor\<close>

lemma stats_step_add:
  "stats_step t acc m = add_form acc (form_spec t [m])"
  by (simp add: stats_step_def add_form_def form_spec_def finished_def is_win_def is_draw_def
      is_loss_def role_goals_for_def role_goals_against_def Let_def)

lemma form_spec_Cons:
  "form_spec t (m # ms) = add_form (form_spec t [m]) (form_spec t ms)"
  by (simp add: add_form_def form_spec_def)

lemma add_form_assoc: "add_form (add_form a b) c = add_form a (add_form b c)"
  by (simp add: add_form_def)

lemma foldl_stats_step:
  "foldl (stats_step t) acc ms = add_form acc (form_spec t ms)"
proof (induction ms arbitrary: acc)
  case Nil
  show ?case by (simp add: add_form_def form_spec_def)
next
  case (Cons m ms)
  have "foldl (stats_step t) acc (m # ms) = add_form (add_form acc (form_spec t [m])) (form_spec t ms)"
    by (simp add: Cons.IH stats_step_add)
  also have "\<dots> = add_form acc (form_spec t (m # ms))"
    by (simp only: add_form_assoc form_spec_Cons [of t m ms])
  finally show ?case .
qed

lemma calculate_last5_stats_closed: "calculate_last5_stats t ms = form_spec t ms"
  by (simp add: calculate_last5_stats_def foldl_stats_step add_form_def empty_form_def)

lemma length_filter_mset: "length (filter P xs) = size (filter_mset P (mset xs))"
  by (metis mset_filter size_mset)

lemma sum_list_filter_mset:
  "sum_list (map f (filter P xs)) = sum_mset (image_mset f (filter_mset P (mset xs)))"
  by (metis mset_filter mset_map sum_mset_sum_list)

lemma form_spec_mset: "mset ms' = mset ms \<Longrightarrow> form_spec t ms' = form_spec t ms"
  by (simp add: form_spec_def length_filter_mset sum_list_filter_mset)

lemma form_spec_filter_finished: "form_spec t (filter finished ms) = form_spec t ms"
proof -
  have "filter (is_win t) (filter finished ms) = filter (is_win t) ms"
    "filter (is_draw t) (filter finished ms) = filter (is_draw t) ms"
    "filter (is_loss t) (filter finished ms) = filter (is_loss t) ms"
    by (auto simp: is_win_def is_draw_def is_loss_def intro: filter_cong)
  then show ?thesis
    by (simp add: form_spec_def)
qed

text \<open>
  C7. For every team and every collection of its matches, the extractor returns the same
  aggregate for every permutation of the collection; the aggregate counts only the matches
  whose status is \<^verbatim>\<open>FINISHED\<close>, takes goals for and against by the home or away role
  of the team, and gives 3 points per win, 1 per draw and none per loss.
\<close>

theorem calculate_last5_stats_form:
  "(\<forall>ms'. mset ms' = mset ms \<longrightarrow> calculate_last5_stats t ms' = calculate_last5_stats t ms)
   \<and> calculate_last5_stats t ms = calculate_last5_stats t (filter finished ms)
   \<and> calculate_last5_stats t ms = form_spec t ms
   \<and> points (calculate_last5_stats t ms)
       = 3 * wins (calculate_last5_stats t ms) + 1 * draws (calculate_last5_stats t ms)
         + 0 * losses (calculate_last5_stats t ms)"
proof (intro conjI allI impI)
  fix ms' :: "match_rec list"
  assume "mset ms' = mset ms"
  then have "form_spec t ms' = form_spec t ms"
    by (rule form_spec_mset)
  then show "calculate_last5_stats t ms' = calculate_last5_stats t ms"
    by (simp only: calculate_last5_stats_closed)
next
  show "calculate_last5_stats t ms = calculate_last5_stats t (filter finished ms)"
    by (simp only: calculate_last5_stats_closed form_spec_filter_finished)
next
  show "calculate_last5_stats t ms = form_spec t ms"
    by (rule calculate_last5_stats_closed)
next
  show "points (calculate_last5_stats t ms)
       = 3 * wins (calculate_last5_stats t ms) + 1 * draws (calculate_last5_stats t ms)
         + 0 * losses (calculate_last5_stats t ms)"
    unfolding calculate_last5_stats_closed by (simp add: form_spec_def)
qed

theorem calculate_last5_stats_form_witness:
  "calculate_last5_stats 7
     [\<lparr>status = ''FINISHED'', homeTeam_id = 9, awayTeam_id = 7, fullTime_home = 1, fullTime_away = 1\<rparr>,
      \<lparr>status = ''TIMED'', homeTeam_id = 7, awayTeam_id = 3, fullTime_home = 5, fullTime_away = 0\<rparr>,
      \<lparr>status = ''FINISHED'', homeTeam_id = 7, awayTeam_id = 9, fullTime_home = 2, fullTime_away = 0\<rparr>]
   = calculate_last5_stats 7
     [\<lparr>status = ''FINISHED'', homeTeam_id = 7, awayTeam_id = 9, fullTime_home = 2, fullTime_away = 0\<rparr>,
      \<lparr>status = ''FINISHED'', homeTeam_id = 9, awayTeam_id = 7, fullTime_home = 1, fullTime_away = 1\<rparr>,
      \<lparr>status = ''TIMED'', homeTeam_id = 7, awayTeam_id = 3, fullTime_home = 5, fullTime_away = 0\<rparr>]
   \<and> calculate_last5_stats 7
     [\<lparr>status = ''FINISHED'', homeTeam_id = 7, awayTeam_id = 9, fullTime_home = 2, fullTime_away = 0\<rparr>,
      \<lparr>status = ''FINISHED'', homeTeam_id = 9, awayTeam_id = 7, fullTime_home = 1, fullTime_away = 1\<rparr>,
      \<lparr>status = ''TIMED'', homeTeam_id = 7, awayTeam_id = 3, fullTime_home = 5, fullTime_away = 0\<rparr>]
   = \<lparr>points = 4, goals_for = 3, goals_against = 1, wins = 1, draws = 1, losses = 0\<rparr>"
proof -
  let ?a = "\<lparr>status = ''FINISHED'', homeTeam_id = 7, awayTeam_id = 9, fullTime_home = 2, fullTime_away = 0\<rparr>"
  let ?b = "\<lparr>status = ''FINISHED'', homeTeam_id = 9, awayTeam_id = 7, fullTime_home = 1, fullTime_away = 1\<rparr>"
  let ?c = "\<lparr>status = ''TIMED'', homeTeam_id = 7, awayTeam_id = 3, fullTime_home = 5, fullTime_away = 0\<rparr>"
  note inst = calculate_last5_stats_form [of "[?a, ?b, ?c]" 7]
  have perm: "mset [?b, ?c, ?a] = mset [?a, ?b, ?c]"
    by simp
  from inst perm have "calculate_last5_stats 7 [?b, ?c, ?a] = calculate_last5_stats 7 [?a, ?b, ?c]"
    by blast
  moreover from inst have "calculate_last5_stats 7 [?a, ?b, ?c] = form_spec 7 [?a, ?b, ?c]"
    by blast
  moreover have "form_spec 7 [?a, ?b, ?c]
      = \<lparr>points = 4, goals_for = 3, goals_against = 1, wins = 1, draws = 1, losses = 0\<rparr>"
    by (simp add: form_spec_def is_win_def is_draw_def is_loss_def finished_def
        role_goals_for_def role_goals_against_def)
  ultimately show ?thesis by simp
qed

subsection \<open>Properties of the retry decorator\<close>

text \<open>
  C3. With \<^verbatim>\<open>max_retries = 3\<close> and base delay \<open>d\<close>: an operation that raises a
  connection error on its first two attempts and returns on the third makes the wrapper
  return that value after exactly the two sleeps \<open>d \<times> 1\<close> and \<open>d \<times> 2\<close>; an operation
  that raises a connection error on every attempt makes the wrapper re-raise the last one.
\<close>

theorem retry_on_connection_error_three:
  "(func 1 = ConnectionFailure e1 \<and> func 2 = ConnectionFailure e2 \<and> func 3 = Returns v
      \<longrightarrow> retry_on_connection_error 3 d func = (Return v, [d * 1, d * 2]))
   \<and> (func 1 = ConnectionFailure e1 \<and> func 2 = ConnectionFailure e2 \<and> func 3 = ConnectionFailure e3
      \<longrightarrow> retry_on_connection_error 3 d func = (Raise e3, [d * 1, d * 2]))"
proof -
  have attempts: "[1..3] = [1, 2, 3::int]"
    by (simp add: upto.simps)
  show ?thesis
    by (simp add: retry_on_connection_error_def attempts)
qed

theorem retry_on_connection_error_three_witness:
  "retry_on_connection_error 3 (1/2)
     (\<lambda>k. if k = 3 then Returns True else ConnectionFailure (''reset'' :: string))
     = (Return True, [1/2, 1])
   \<and> retry_on_connection_error 3 (1/2)
     (\<lambda>k. if k = 3 then ConnectionFailure ''third'' else ConnectionFailure ''reset'' :: (bool, string) attempt)
     = (Raise ''third'', [1/2, 1])"
  using retry_on_connection_error_three
          [of "\<lambda>k. if k = 3 then Returns True else ConnectionFailure ''reset''"
              "''reset''" "''reset''" True "1/2" "''third''"]
        retry_on_connection_error_three
          [of "\<lambda>k. if k = 3 then ConnectionFailure ''third'' else ConnectionFailure ''reset'' :: (bool, string) attempt"
              "''reset''" "''reset''" True "1/2" "''third''"]
  by simp

subsection \<open>Properties of the rating lookup\<close>

lemma fetchone_select_elo: "fetchone (select_elo tbl team) = map_of tbl team"
  by (induction tbl) (auto simp: fetchone_def select_elo_def)

text \<open>
  C9. In both stores the rating lookup returns the stored rating of a team that is present
  (the first one in table order) and \<open>1500.0\<close> for a team that is absent; the lookup has
  no branch that raises for an unknown name.
\<close>

theorem get_elo_default:
  "(\<forall>r. map_of tbl team = Some r \<longrightarrow> sqlite_get_elo tbl team = r \<and> pg_get_elo tbl team = r)
   \<and> (team \<notin> fst ` set tbl \<longrightarrow> sqlite_get_elo tbl team = 1500 \<and> pg_get_elo tbl team = 1500)"
  by (auto simp: sqlite_get_elo_def pg_get_elo_def fetchone_select_elo map_of_eq_None_iff [symmetric]
      simp del: map_of_eq_None_iff)

theorem get_elo_default_witness:
  "sqlite_get_elo [(''Arsenal'', 1987.5), (''Chelsea'', 1820)] ''Chelsea'' = 1820
   \<and> pg_get_elo [(''Arsenal'', 1987.5), (''Chelsea'', 1820)] ''Chelsea'' = 1820
   \<and> sqlite_get_elo [(''Arsenal'', 1987.5), (''Chelsea'', 1820)] ''UnknownTeamXYZ'' = 1500
   \<and> pg_get_elo [(''Arsenal'', 1987.5), (''Chelsea'', 1820)] ''UnknownTeamXYZ'' = 1500"
  using get_elo_default [of "[(''Arsenal'', 1987.5), (''Chelsea'', 1820)]" "''Chelsea''"]
        get_elo_default [of "[(''Arsenal'', 1987.5), (''Chelsea'', 1820)]" "''UnknownTeamXYZ''"]
  by simp


subsection \<open>Properties of the Python string operations\<close>

lemma digit_char_props:
  assumes "d < 10"
  shows "is_digit (digit_char d)" "digit_value (digit_char d) = d"
  using assms by (auto simp: is_digit_def digit_value_def digit_char_def)

lemma decimal_digits: "list_all is_digit (decimal n)"
proof (induction n rule: decimal.induct)
  case (1 n)
  show ?case
  proof (cases "n < 10")
    case True
    then show ?thesis by (simp add: decimal.simps [of n] digit_char_props)
  next
    case False
    with 1 show ?thesis by (simp add: decimal.simps [of n] digit_char_props)
  qed
qed

lemma decimal_nonempty: "decimal n \<noteq> []"
  by (subst decimal.simps) simp

lemma decimal_value: "foldl (\<lambda>a c. 10 * a + digit_value c) 0 (decimal n) = n"
proof (induction n rule: decimal.induct)
  case (1 n)
  show ?case
  proof (cases "n < 10")
    case True
    then show ?thesis by (simp add: decimal.simps [of n] digit_char_props)
  next
    case False
    with 1 show ?thesis by (simp add: decimal.simps [of n] digit_char_props)
  qed
qed

lemma py_int_decimal: "py_int (decimal n) = Inr (int n)"
  by (simp add: py_int_def decimal_digits decimal_nonempty decimal_value)

lemma is_digit_not_space: "is_digit c \<Longrightarrow> \<not> is_space c"
  by (auto simp: is_digit_def is_space_def)

lemma split_ws_word:
  "list_all is_digit w \<Longrightarrow> cur @ w \<noteq> [] \<Longrightarrow> split_ws cur w = [cur @ w]"
  by (induction w arbitrary: cur) (auto simp: is_digit_not_space)

lemma py_split_status: "py_split (update_status n) = [''UPDATE'', decimal n]"
  by (simp add: update_status_def py_split_def is_space_def split_ws_word decimal_digits
      decimal_nonempty)

lemma status_row_count:
  "py_startswith (update_status n) ''UPDATE''"
  "py_last (py_split (update_status n)) = Inr (decimal n)"
  by (simp_all add: py_startswith_def py_split_status py_last_def) (simp add: update_status_def)

subsection \<open>Properties of the score backfill\<close>

lemma rowcount_positive:
  "(filter (\<lambda>r. match_id r = mid) rs \<noteq> []) = (\<exists>r \<in> set rs. match_id r = mid)"
  by (simp add: filter_empty_conv)

lemma set_scores_no_match:
  "\<forall>r \<in> set rs. match_id r \<noteq> mid \<Longrightarrow> map (set_scores hs aws mid) rs = rs"
  by (induction rs) (auto simp: set_scores_def)

lemma sqlite_update_result:
  "sqlite_update_prediction_with_score db mid hs aws
     = ((\<exists>r \<in> set (rows db). match_id r = mid), db\<lparr>rows := map (set_scores hs aws mid) (rows db)\<rparr>)"
  by (simp add: sqlite_update_prediction_with_score_def execute_update_def rowcount_positive)

lemma pg_update_result:
  "pg_update_prediction_with_score db mid hs aws
     = (Inr (\<exists>r \<in> set (rows db). match_id r = mid), db\<lparr>rows := map (set_scores hs aws mid) (rows db)\<rparr>)"
  by (simp add: pg_update_prediction_with_score_def execute_update_def status_row_count
      py_int_decimal rowcount_positive)

text \<open>
  C8. In both stores \<^verbatim>\<open>update_prediction_with_score\<close> returns \<^verbatim>\<open>True\<close> exactly
  when some stored row has the given \<^verbatim>\<open>match_id\<close>, whatever its model key; with no
  such row it returns \<^verbatim>\<open>False\<close> and the relation is unchanged; every row with that
  \<^verbatim>\<open>match_id\<close> gets both real scores and keeps all other fields, and every other
  row is kept as it is.
\<close>

theorem update_prediction_with_score_by_match_id:
  "fst (sqlite_update_prediction_with_score db mid hs aws) = (\<exists>r \<in> set (rows db). match_id r = mid)
   \<and> fst (pg_update_prediction_with_score db mid hs aws) = Inr (\<exists>r \<in> set (rows db). match_id r = mid)
   \<and> snd (pg_update_prediction_with_score db mid hs aws)
       = snd (sqlite_update_prediction_with_score db mid hs aws)
   \<and> ((\<forall>r \<in> set (rows db). match_id r \<noteq> mid)
        \<longrightarrow> snd (sqlite_update_prediction_with_score db mid hs aws) = db)
   \<and> rows (snd (sqlite_update_prediction_with_score db mid hs aws))
       = map (\<lambda>r. if match_id r = mid then r\<lparr>real_home_score := hs, real_away_score := aws\<rparr> else r)
           (rows db)
   \<and> id_seq (snd (sqlite_update_prediction_with_score db mid hs aws)) = id_seq db"
proof -
  let ?db' = "db\<lparr>rows := map (set_scores hs aws mid) (rows db)\<rparr>"
  have sqlite: "sqlite_update_prediction_with_score db mid hs aws
      = ((\<exists>r \<in> set (rows db). match_id r = mid), ?db')"
    by (rule sqlite_update_result)
  have pg: "pg_update_prediction_with_score db mid hs aws
      = (Inr (\<exists>r \<in> set (rows db). match_id r = mid), ?db')"
    by (rule pg_update_result)
  have unchanged: "(\<forall>r \<in> set (rows db). match_id r \<noteq> mid) \<longrightarrow> ?db' = db"
    by (simp add: set_scores_no_match)
  have rows_eq: "rows ?db'
      = map (\<lambda>r. if match_id r = mid then r\<lparr>real_home_score := hs, real_away_score := aws\<rparr> else r)
          (rows db)"
    by (simp add: set_scores_def)
  have seq: "id_seq ?db' = id_seq db"
    by simp
  show ?thesis
    unfolding sqlite pg fst_conv snd_conv
    using unchanged rows_eq seq by blast
qed

theorem update_prediction_with_score_by_match_id_witness:
  "fst (sqlite_update_prediction_with_score
         \<lparr>rows = [new_row 1 100 ''10'' 1 ''H'' 1.5 2 ''A'' 1 0.5 0.3 0.2,
                  new_row 2 100 ''01'' 1 ''H'' 2 2 ''A'' 1 0.6 0.2 0.2,
                  new_row 3 200 ''10'' 3 ''C'' 1 4 ''D'' 1 0.4 0.3 0.3], id_seq = 3\<rparr> 100 2 1)
   \<and> fst (pg_update_prediction_with_score
         \<lparr>rows = [new_row 1 100 ''10'' 1 ''H'' 1.5 2 ''A'' 1 0.5 0.3 0.2,
                  new_row 2 100 ''01'' 1 ''H'' 2 2 ''A'' 1 0.6 0.2 0.2,
                  new_row 3 200 ''10'' 3 ''C'' 1 4 ''D'' 1 0.4 0.3 0.3], id_seq = 3\<rparr> 100 2 1)
       = Inr True
   \<and> rows (snd (sqlite_update_prediction_with_score
         \<lparr>rows = [new_row 1 100 ''10'' 1 ''H'' 1.5 2 ''A'' 1 0.5 0.3 0.2,
                  new_row 2 100 ''01'' 1 ''H'' 2 2 ''A'' 1 0.6 0.2 0.2,
                  new_row 3 200 ''10'' 3 ''C'' 1 4 ''D'' 1 0.4 0.3 0.3], id_seq = 3\<rparr> 100 2 1))
       = [(new_row 1 100 ''10'' 1 ''H'' 1.5 2 ''A'' 1 0.5 0.3 0.2)\<lparr>real_home_score := 2, real_away_score := 1\<rparr>,
          (new_row 2 100 ''01'' 1 ''H'' 2 2 ''A'' 1 0.6 0.2 0.2)\<lparr>real_home_score := 2, real_away_score := 1\<rparr>,
          new_row 3 200 ''10'' 3 ''C'' 1 4 ''D'' 1 0.4 0.3 0.3]
   \<and> sqlite_update_prediction_with_score
         \<lparr>rows = [new_row 1 100 ''10'' 1 ''H'' 1.5 2 ''A'' 1 0.5 0.3 0.2,
                  new_row 2 100 ''01'' 1 ''H'' 2 2 ''A'' 1 0.6 0.2 0.2,
                  new_row 3 200 ''10'' 3 ''C'' 1 4 ''D'' 1 0.4 0.3 0.3], id_seq = 3\<rparr> 999 2 1
       = (False, \<lparr>rows = [new_row 1 100 ''10'' 1 ''H'' 1.5 2 ''A'' 1 0.5 0.3 0.2,
                  new_row 2 100 ''01'' 1 ''H'' 2 2 ''A'' 1 0.6 0.2 0.2,
                  new_row 3 200 ''10'' 3 ''C'' 1 4 ''D'' 1 0.4 0.3 0.3], id_seq = 3\<rparr>)"
proof -
  let ?db = "\<lparr>rows = [new_row 1 100 ''10'' 1 ''H'' 1.5 2 ''A'' 1 0.5 0.3 0.2,
                  new_row 2 100 ''01'' 1 ''H'' 2 2 ''A'' 1 0.6 0.2 0.2,
                  new_row 3 200 ''10'' 3 ''C'' 1 4 ''D'' 1 0.4 0.3 0.3], id_seq = 3\<rparr>"
  have ids: "map match_id (rows ?db) = [100, 100, 200]"
    by (simp add: new_row_def)
  have hit: "\<exists>r \<in> set (rows ?db). match_id r = 100"
    by (simp add: new_row_def)
  have miss: "\<forall>r \<in> set (rows ?db). match_id r \<noteq> 999"
    by (simp add: new_row_def)
  note at_100 = update_prediction_with_score_by_match_id [of ?db 100 2 1]
  note at_999 = update_prediction_with_score_by_match_id [of ?db 999 2 1]
  have a: "fst (sqlite_update_prediction_with_score ?db 100 2 1)"
    using at_100 hit by blast
  have b: "fst (pg_update_prediction_with_score ?db 100 2 1) = Inr True"
    using at_100 hit by simp
  have c: "rows (snd (sqlite_update_prediction_with_score ?db 100 2 1))
      = [(new_row 1 100 ''10'' 1 ''H'' 1.5 2 ''A'' 1 0.5 0.3 0.2)\<lparr>real_home_score := 2, real_away_score := 1\<rparr>,
          (new_row 2 100 ''01'' 1 ''H'' 2 2 ''A'' 1 0.6 0.2 0.2)\<lparr>real_home_score := 2, real_away_score := 1\<rparr>,
          new_row 3 200 ''10'' 3 ''C'' 1 4 ''D'' 1 0.4 0.3 0.3]"
    using at_100 by (simp add: new_row_def)
  have d: "fst (sqlite_update_prediction_with_score ?db 999 2 1) = False"
    using at_999 miss by blast
  have e: "snd (sqlite_update_prediction_with_score ?db 999 2 1) = ?db"
    using at_999 miss by blast
  from d e have "sqlite_update_prediction_with_score ?db 999 2 1 = (False, ?db)"
    by (simp add: prod_eq_iff)
  with a b c show ?thesis by blast
qed

subsection \<open>Properties of the idempotent insert\<close>

lemma key_exists_after_insert:
  "key_exists \<lparr>rows = rs @ [new_row i mid mk hid hname hxg aid aname axg hp dp ap], id_seq = s\<rparr> mid mk"
  by (simp add: key_exists_def new_row_def)

text \<open>
  The SQLite store does what the specification says: on a fresh key the first call returns
  \<^verbatim>\<open>True\<close> and appends a row holding the values of that call; a second call with the
  same key, whatever its other values, returns \<^verbatim>\<open>False\<close>, raises nothing and leaves
  the relation as the first call left it.
\<close>

lemma sqlite_insert_prediction_first_writer_wins:
  assumes fresh: "\<not> key_exists db mid mk"
    and db1: "db1 = \<lparr>rows = rows db @ [new_row (id_seq db + 1) mid mk hid hname hxg aid aname axg hp dp ap],
                   id_seq = id_seq db + 1\<rparr>"
  shows "sqlite_insert_prediction db mid mk hid hxg aid axg hp dp ap hname aname = (Inr True, db1)"
    and "sqlite_insert_prediction db1 mid mk hid' hxg' aid' axg' hp' dp' ap' hname' aname' = (Inr False, db1)"
proof -
  show "sqlite_insert_prediction db mid mk hid hxg aid axg hp dp ap hname aname = (Inr True, db1)"
    using fresh by (simp add: sqlite_insert_prediction_def sqlite_execute_insert_def db1)
  have "key_exists db1 mid mk"
    unfolding db1 by (rule key_exists_after_insert)
  then show "sqlite_insert_prediction db1 mid mk hid' hxg' aid' axg' hp' dp' ap' hname' aname' = (Inr False, db1)"
    by (simp add: sqlite_insert_prediction_def sqlite_execute_insert_def)
qed

text \<open>
  The PostgreSQL store never stores a second row for a key and never overwrites, but it
  returns \<^verbatim>\<open>True\<close> on every call: \<^verbatim>\<open>ON CONFLICT DO NOTHING\<close> keeps the
  statement from raising, so the handler that returns \<^verbatim>\<open>False\<close> is never entered.
\<close>

lemma pg_insert_prediction_returns_True:
  "fst (pg_insert_prediction db mid mk hid hxg aid axg hp dp ap hname aname) = Inr True"
  by (simp add: pg_insert_prediction_def pg_execute_insert_def)

lemma pg_insert_prediction_duplicate_rows:
  "key_exists db mid mk
     \<Longrightarrow> rows (snd (pg_insert_prediction db mid mk hid hxg aid axg hp dp ap hname aname)) = rows db"
  by (simp add: pg_insert_prediction_def pg_execute_insert_def)

text \<open>
  C1. Calling \<^verbatim>\<open>insert_prediction\<close> twice with the same \<^verbatim>\<open>(match_id, model)\<close>
  should return \<^verbatim>\<open>True\<close> and then \<^verbatim>\<open>False\<close>, the second call leaving the stored
  row as the first call wrote it. On the PostgreSQL store, starting from an empty relation,
  the second call with the key \<open>(123, ''11'')\<close> leaves the row of the first call in place
  but returns \<^verbatim>\<open>True\<close>.
\<close>

theorem pg_insert_prediction_duplicate_returns_True:
  "pg_insert_prediction \<lparr>rows = [], id_seq = 0\<rparr> 123 ''11'' 1 1.5 2 1 0.5 0.3 0.2 ''H'' ''A''
     = (Inr True, \<lparr>rows = [new_row 1 123 ''11'' 1 ''H'' 1.5 2 ''A'' 1 0.5 0.3 0.2], id_seq = 1\<rparr>)
   \<and> pg_insert_prediction \<lparr>rows = [new_row 1 123 ''11'' 1 ''H'' 1.5 2 ''A'' 1 0.5 0.3 0.2], id_seq = 1\<rparr>
       123 ''11'' 1 2.5 2 0.5 0.6 0.3 0.1 ''H'' ''A''
     = (Inr True, \<lparr>rows = [new_row 1 123 ''11'' 1 ''H'' 1.5 2 ''A'' 1 0.5 0.3 0.2], id_seq = 2\<rparr>)"
  by (simp add: pg_insert_prediction_def pg_execute_insert_def key_exists_def new_row_def)


subsection \<open>Properties of the outcome probability engine\<close>





















subsection \<open>Properties of the ensemble predictor\<close>

lemma run_models_selected:
  "i + length reg \<le> length code \<Longrightarrow>
   run_models art code fs i reg hs as
     = Inr (hs @ map (\<lambda>e. model_predict art (home_artifact e) fs) (selected reg (drop i code)),
            as @ map (\<lambda>e. model_predict art (away_artifact e) fs) (selected reg (drop i code)))"
proof (induction reg arbitrary: i hs as)
  case Nil
  show ?case by (simp add: selected_def)
next
  case (Cons entry reg)
  obtain key paths descr where entry: "entry = (key, (paths, descr))"
    by (cases entry) auto
  from Cons.prems have i: "i < length code" and rest: "(i + 1) + length reg \<le> length code"
    by simp_all
  from i have drop: "drop i code = code ! i # drop (i + 1) code"
    by (simp add: Cons_nth_drop_Suc)
  show ?case
    using i Cons.IH [OF rest]
    by (simp add: entry drop selected_def home_artifact_def away_artifact_def)
qed

lemma selected_nonempty:
  assumes "length code = length reg" and "\<exists>c \<in> set code. c \<noteq> 0"
  shows "selected reg code \<noteq> []"
proof -
  from assms(2) obtain k where k: "k < length code" "code ! k \<noteq> 0"
    by (auto simp: in_set_conv_nth)
  with assms(1) have "(reg ! k, code ! k) \<in> set (zip reg code)"
    by (auto simp: set_zip)
  with k(2) have "filter (\<lambda>(entry, flag). flag \<noteq> 0) (zip reg code) \<noteq> []"
    by (auto simp: filter_empty_conv)
  then show ?thesis by (simp add: selected_def)
qed

lemma run_prediction_selected:
  assumes "length code = length ml_models"
  shows "run_prediction art ml_models code features
     = Inr (map (\<lambda>e. model_predict art (home_artifact e) (scaler_transform art features))
              (selected ml_models code),
            map (\<lambda>e. model_predict art (away_artifact e) (scaler_transform art features))
              (selected ml_models code))"
  using assms run_models_selected [of 0 ml_models code art "scaler_transform art features" "[]" "[]"]
  by (simp add: run_prediction_def)

lemma make_prediction_xg:
  assumes run: "run_prediction art ml_models code features = Inr (home_list, away_list)"
    and "home_list \<noteq> []" and "away_list \<noteq> []"
  shows "\<exists>p. make_prediction art ml_models code features = Inr p
           \<and> Expected_Home_Goals p = Finite (arithmetic_mean home_list)
           \<and> Expected_Away_Goals p = Finite (arithmetic_mean away_list)"
  using assms(2,3)
  by (simp add: make_prediction_def run np_mean_def arithmetic_mean_def split: prod.splits)

text \<open>
  C5. For every feature vector and every selection with one flag per registry entry and at
  least one flag set, the predictor scales the raw features with the shared scaler, runs the
  home and the away artifact of each selected entry on that scaled vector, and returns as
  expected home and away goals the arithmetic means of the outputs collected. In
  particular two selected models with outputs \<open>(1.0, 0.5)\<close> and \<open>(2.0, 1.5)\<close> give
  \<open>(1.5, 1.0)\<close>.
\<close>

theorem make_prediction_ensemble_mean:
  assumes len: "length code = length ml_models"
    and some: "\<exists>flag \<in> set code. flag \<noteq> 0"
  shows "(\<exists>home_list away_list p.
            home_list = map (\<lambda>e. model_predict art (home_artifact e) (scaler_transform art features))
                          (selected ml_models code)
          \<and> away_list = map (\<lambda>e. model_predict art (away_artifact e) (scaler_transform art features))
                          (selected ml_models code)
          \<and> selected ml_models code \<noteq> []
          \<and> run_prediction art ml_models code features = Inr (home_list, away_list)
          \<and> make_prediction art ml_models code features = Inr p
          \<and> Expected_Home_Goals p = Finite (arithmetic_mean home_list)
          \<and> Expected_Away_Goals p = Finite (arithmetic_mean away_list))
       \<and> (map (\<lambda>e. (model_predict art (home_artifact e) (scaler_transform art features),
                     model_predict art (away_artifact e) (scaler_transform art features)))
              (selected ml_models code) = [(1, 1 / 2), (2, 3 / 2)]
              \<longrightarrow> (\<exists>p. make_prediction art ml_models code features = Inr p
                     \<and> Expected_Home_Goals p = Finite (3 / 2)
                     \<and> Expected_Away_Goals p = Finite 1))"
proof -
  let ?fs = "scaler_transform art features"
  let ?hs = "map (\<lambda>e. model_predict art (home_artifact e) ?fs) (selected ml_models code)"
  let ?as = "map (\<lambda>e. model_predict art (away_artifact e) ?fs) (selected ml_models code)"
  have run: "run_prediction art ml_models code features = Inr (?hs, ?as)"
    using len by (rule run_prediction_selected)
  have sel: "selected ml_models code \<noteq> []"
    using len some by (rule selected_nonempty)
  then have ne: "?hs \<noteq> []" "?as \<noteq> []"
    by simp_all
  from make_prediction_xg [OF run ne] obtain p where p:
    "make_prediction art ml_models code features = Inr p"
    "Expected_Home_Goals p = Finite (arithmetic_mean ?hs)"
    "Expected_Away_Goals p = Finite (arithmetic_mean ?as)"
    by blast
  have first: "\<exists>home_list away_list p.
            home_list = ?hs \<and> away_list = ?as \<and> selected ml_models code \<noteq> []
          \<and> run_prediction art ml_models code features = Inr (home_list, away_list)
          \<and> make_prediction art ml_models code features = Inr p
          \<and> Expected_Home_Goals p = Finite (arithmetic_mean home_list)
          \<and> Expected_Away_Goals p = Finite (arithmetic_mean away_list)"
    using run sel p by blast
  have second: "\<exists>p. make_prediction art ml_models code features = Inr p
                     \<and> Expected_Home_Goals p = Finite (3 / 2)
                     \<and> Expected_Away_Goals p = Finite 1"
    if two: "map (\<lambda>e. (model_predict art (home_artifact e) ?fs, model_predict art (away_artifact e) ?fs))
                  (selected ml_models code) = [(1, 1 / 2), (2, 3 / 2)]"
  proof -
    have "?hs = map fst (map (\<lambda>e. (model_predict art (home_artifact e) ?fs,
                                     model_predict art (away_artifact e) ?fs)) (selected ml_models code))"
      by (simp add: comp_def)
    then have hs: "?hs = [1, 2]"
      unfolding two by simp
    have "?as = map snd (map (\<lambda>e. (model_predict art (home_artifact e) ?fs,
                                     model_predict art (away_artifact e) ?fs)) (selected ml_models code))"
      by (simp add: comp_def)
    then have as: "?as = [1 / 2, 3 / 2]"
      unfolding two by simp
    have "arithmetic_mean ?hs = 3 / 2" "arithmetic_mean ?as = 1"
      unfolding hs as by (simp_all add: arithmetic_mean_def)
    with p show ?thesis by simp
  qed
  from first second show ?thesis by blast
qed

theorem make_prediction_ensemble_mean_witness:
  "make_prediction
     \<lparr>scaler_transform = map (\<lambda>x. x / 2),
      model_predict = (\<lambda>path fs. if path = ''home_a.pkl'' then 1 else if path = ''away_a.pkl'' then 1 / 2
                                  else if path = ''home_b.pkl'' then 2 else if path = ''away_b.pkl'' then 3 / 2
                                  else 0)\<rparr>
     [(''A'', (''home_a.pkl'', ''away_a.pkl''), ''first''),
      (''C'', (''home_c.pkl'', ''away_c.pkl''), ''unused''),
      (''B'', (''home_b.pkl'', ''away_b.pkl''), ''second'')]
     [1, 0, 1] [1500, 1500]
   \<noteq> Inl (OtherException ''list index out of range'')
   \<and> (\<exists>p. make_prediction
     \<lparr>scaler_transform = map (\<lambda>x. x / 2),
      model_predict = (\<lambda>path fs. if path = ''home_a.pkl'' then 1 else if path = ''away_a.pkl'' then 1 / 2
                                  else if path = ''home_b.pkl'' then 2 else if path = ''away_b.pkl'' then 3 / 2
                                  else 0)\<rparr>
     [(''A'', (''home_a.pkl'', ''away_a.pkl''), ''first''),
      (''C'', (''home_c.pkl'', ''away_c.pkl''), ''unused''),
      (''B'', (''home_b.pkl'', ''away_b.pkl''), ''second'')]
     [1, 0, 1] [1500, 1500] = Inr p
     \<and> Expected_Home_Goals p = Finite (3 / 2) \<and> Expected_Away_Goals p = Finite 1)"
proof -
  let ?art = "\<lparr>scaler_transform = map (\<lambda>x. x / 2),
      model_predict = (\<lambda>path fs. if path = ''home_a.pkl'' then 1 else if path = ''away_a.pkl'' then 1 / 2
                                  else if path = ''home_b.pkl'' then 2 else if path = ''away_b.pkl'' then 3 / 2
                                  else (0::real))\<rparr>"
  let ?reg = "[(''A'', (''home_a.pkl'', ''away_a.pkl''), ''first''),
      (''C'', (''home_c.pkl'', ''away_c.pkl''), ''unused''),
      (''B'', (''home_b.pkl'', ''away_b.pkl''), ''second'')]"
  have len: "length [1, 0, 1 :: int] = length ?reg"
    by simp
  have some: "\<exists>flag \<in> set [1, 0, 1 :: int]. flag \<noteq> 0"
    by simp
  have two: "map (\<lambda>e. (model_predict ?art (home_artifact e) (scaler_transform ?art [1500, 1500]),
                       model_predict ?art (away_artifact e) (scaler_transform ?art [1500, 1500])))
               (selected ?reg [1, 0, 1]) = [(1, 1 / 2), (2, 3 / 2)]"
    by (simp add: selected_def home_artifact_def away_artifact_def)
  have "\<exists>p. make_prediction ?art ?reg [1, 0, 1] [1500, 1500] = Inr p
     \<and> Expected_Home_Goals p = Finite (3 / 2) \<and> Expected_Away_Goals p = Finite 1"
    by (rule make_prediction_ensemble_mean [OF len some, of ?art "[1500, 1500]", THEN conjunct2,
          rule_format, OF two])
  then show ?thesis by auto
qed


subsection \<open>Properties of \<^verbatim>\<open>fetch_matches\<close>\<close>

lemma fetch_matches_body_length:
  "fetch_matches_body env team_code = Inr results \<Longrightarrow> length results \<le> 20"
  by (auto simp: fetch_matches_body_def bind_exc_def split: sum.splits)

lemma collect_results_all_fetched:
  "collect_results (\<lambda>url. Inr (img url)) ms
     = Inr (map (\<lambda>m. \<lparr>e_id = u_id m, e_home_name = u_homeTeam_shortName m,
                        e_home_emblem = img (u_homeTeam_crest m),
                        e_away_name = u_awayTeam_shortName m,
                        e_away_emblem = img (u_awayTeam_crest m), e_date = u_utcDate m,
                        e_competition = u_competition_name m, e_home_id = u_homeTeam_id m,
                        e_away_id = u_awayTeam_id m\<rparr>) ms)"
  by (induction ms) simp_all

text \<open>
  C10. Every successful call of \<^verbatim>\<open>fetch_matches\<close> returns a list of at most 20
  matches, however many the upstream response holds.
\<close>

theorem fetch_matches_at_most_20:
  assumes "fetch_matches env team_code = Returned True payload"
  shows "\<exists>results. payload = Data results \<and> length results \<le> 20"
proof (cases "fetch_matches_body env team_code")
  case (Inr results)
  with assms have "payload = Data results"
    by (simp add: fetch_matches_def)
  moreover from Inr have "length results \<le> 20"
    by (rule fetch_matches_body_length)
  ultimately show ?thesis by blast
next
  case (Inl e)
  with assms show ?thesis
    by (cases e) (simp_all add: fetch_matches_def split: if_splits)
qed

theorem fetch_matches_at_most_20_witness:
  "fetch_matches
     \<lparr>api_get = (\<lambda>k ep. Inr (UpcomingMatchesData (replicate 50
         \<lparr>u_id = 1, u_utcDate = ''2025-01-01'', u_competition_name = ''Comp'', u_homeTeam_id = 1,
          u_homeTeam_shortName = ''H'', u_homeTeam_crest = ''home.png'', u_awayTeam_id = 2,
          u_awayTeam_shortName = ''A'', u_awayTeam_crest = ''away.png''\<rparr>))),
      storage_get_elo = (\<lambda>k team. Inr 1500),
      storage_insert_prediction = (\<lambda>mid mk hid hxg aid axg hp dp ap hname aname. Inr True),
      fetch_image = (\<lambda>url. Inr ''crest''),
      artifacts_of = \<lparr>scaler_transform = (\<lambda>fs. fs), model_predict = (\<lambda>path fs. 1)\<rparr>,
      registry_of = []\<rparr> 1
   = Returned True (Data (replicate 20
       \<lparr>e_id = 1, e_home_name = ''H'', e_home_emblem = ''crest'', e_away_name = ''A'',
        e_away_emblem = ''crest'', e_date = ''2025-01-01'', e_competition = ''Comp'',
        e_home_id = 1, e_away_id = 2\<rparr>))
   \<and> length (replicate 20
       \<lparr>e_id = 1, e_home_name = ''H'', e_home_emblem = ''crest'', e_away_name = ''A'',
        e_away_emblem = ''crest'', e_date = ''2025-01-01'', e_competition = ''Comp'',
        e_home_id = 1, e_away_id = (2::int)\<rparr>) \<le> 20"
proof -
  let ?env = "\<lparr>api_get = (\<lambda>k ep. Inr (UpcomingMatchesData (replicate 50
         \<lparr>u_id = 1, u_utcDate = ''2025-01-01'', u_competition_name = ''Comp'', u_homeTeam_id = 1,
          u_homeTeam_shortName = ''H'', u_homeTeam_crest = ''home.png'', u_awayTeam_id = 2,
          u_awayTeam_shortName = ''A'', u_awayTeam_crest = ''away.png''\<rparr>))),
      storage_get_elo = (\<lambda>k team. Inr 1500),
      storage_insert_prediction = (\<lambda>mid mk hid hxg aid axg hp dp ap hname aname. Inr True),
      fetch_image = (\<lambda>url. Inr ''crest''),
      artifacts_of = \<lparr>scaler_transform = (\<lambda>fs. fs), model_predict = (\<lambda>path fs. 1)\<rparr>,
      registry_of = []\<rparr>"
  let ?e = "\<lparr>e_id = 1, e_home_name = ''H'', e_home_emblem = ''crest'', e_away_name = ''A'',
        e_away_emblem = ''crest'', e_date = ''2025-01-01'', e_competition = ''Comp'',
        e_home_id = 1, e_away_id = (2::int)\<rparr>"
  have run: "fetch_matches ?env 1 = Returned True (Data (replicate 20 ?e))"
    by (simp add: fetch_matches_def fetch_matches_body_def bind_exc_def upcoming_matches_def
        collect_results_all_fetched [of "\<lambda>url. ''crest''"])
  from fetch_matches_at_most_20 [OF run] obtain results
    where "Data (replicate 20 ?e) = Data results" and "length results \<le> 20"
    by blast
  then have "length (replicate 20 ?e) \<le> 20"
    by simp
  with run show ?thesis by blast
qed

subsection \<open>Properties of \<^verbatim>\<open>predict_scores\<close>\<close>

text \<open>
  What \<^verbatim>\<open>predict_scores\<close> returns, by what its body does: the pair of \<^verbatim>\<open>True\<close>
  and the predictions when every stage returns, the pair of \<^verbatim>\<open>False\<close> and the fixed
  message on a response error with status 429, the pair of \<^verbatim>\<open>False\<close> and the text of
  the exception on any exception that is not a response error, and \<^verbatim>\<open>None\<close> on a
  response error with any other status.
\<close>

lemma predict_scores_cases:
  "(predict_scores_body env hid aid mid code = Inr p
      \<longrightarrow> predict_scores env hid aid mid code = Returned True (Data p))
   \<and> (predict_scores_body env hid aid mid code = Inl (ClientResponseError 429 msg)
      \<longrightarrow> predict_scores env hid aid mid code = Returned False (Messages [rate_limit_message]))
   \<and> (predict_scores_body env hid aid mid code = Inl (OtherException msg)
      \<longrightarrow> predict_scores env hid aid mid code = Returned False (Messages [msg]))
   \<and> (http_status \<noteq> 429 \<and> predict_scores_body env hid aid mid code = Inl (ClientResponseError http_status msg)
      \<longrightarrow> predict_scores env hid aid mid code = ReturnedNone)"
  by (simp add: predict_scores_def)

lemma predict_scores_first_call_raises:
  "api_get env 0 (MatchEndpoint mid) = Inl e \<Longrightarrow> predict_scores_body env hid aid mid code = Inl e"
  by (simp add: predict_scores_body_def bind_exc_def)

text \<open>
  The three cases the test suite exercises: a rate-limited first request, a first request
  that raises a plain exception, and a run in which every stage returns.
\<close>

lemma predict_scores_rate_limit:
  "api_get env 0 (MatchEndpoint mid) = Inl (ClientResponseError 429 msg)
     \<Longrightarrow> predict_scores env hid aid mid code = Returned False (Messages [rate_limit_message])"
  by (simp add: predict_scores_def predict_scores_first_call_raises)

lemma predict_scores_generic_exception:
  "api_get env 0 (MatchEndpoint mid) = Inl (OtherException msg)
     \<Longrightarrow> predict_scores env hid aid mid code = Returned False (Messages [msg])"
  by (simp add: predict_scores_def predict_scores_first_call_raises)

lemma predict_scores_success:
  assumes api: "api_get env 0 (MatchEndpoint mid) = Inr (MatchData hname aname)"
      "api_get env 1 (TeamRecentMatchesEndpoint hid) = Inr (RecentMatchesData hms)"
      "api_get env 2 (TeamRecentMatchesEndpoint aid) = Inr (RecentMatchesData ams)"
    and elo: "storage_get_elo env 0 hname = Inr home_elo" "storage_get_elo env 1 aname = Inr away_elo"
    and len: "length code = length (registry_of env)"
    and some: "\<exists>flag \<in> set code. flag \<noteq> 0"
    and ins: "\<And>hxg axg hp dp ap.
      storage_insert_prediction env mid (code_str code) hid hxg aid axg hp dp ap hname aname = Inr b"
  shows "\<exists>p. predict_scores env hid aid mid code = Returned True (Data p)"
proof -
  let ?features = "[home_elo, away_elo] @ form_values (calculate_last5_stats hid hms)
      @ form_values (calculate_last5_stats aid ams)"
  from run_prediction_selected [OF len] selected_nonempty [OF len some]
  obtain home_list away_list where
    "run_prediction (artifacts_of env) (registry_of env) code ?features = Inr (home_list, away_list)"
    "home_list \<noteq> []" "away_list \<noteq> []"
    by simp
  from make_prediction_xg [OF this] obtain p where
    "make_prediction (artifacts_of env) (registry_of env) code ?features = Inr p"
    by blast
  then have "predict_scores_body env hid aid mid code = Inr p"
    by (simp add: predict_scores_body_def bind_exc_def api elo ins short_names_def
        recent_matches_def del: One_nat_def)
  then show ?thesis
    by (simp add: predict_scores_def)
qed

text \<open>
  C2. \<^verbatim>\<open>predict_scores\<close> should return a pair for every input and every exception of
  a stage. When the upstream answers the first request, for the match 123, with HTTP 404,
  the method returns \<^verbatim>\<open>None\<close>, which is no pair.
\<close>

theorem predict_scores_http_404_returns_None:
  "predict_scores
     \<lparr>api_get = (\<lambda>k ep. Inl (ClientResponseError 404 ''Not Found'')),
      storage_get_elo = (\<lambda>k team. Inr 1500),
      storage_insert_prediction = (\<lambda>mid mk hid hxg aid axg hp dp ap hname aname. Inr True),
      fetch_image = (\<lambda>url. Inr ''crest''),
      artifacts_of = \<lparr>scaler_transform = (\<lambda>fs. fs), model_predict = (\<lambda>path fs. 1)\<rparr>,
      registry_of = [(''XGB'', (''home_xgb.pkl'', ''away_xgb.pkl''), ''XGBoost'')]\<rparr>
     1 2 123 [1]
   = ReturnedNone"
  by (simp add: predict_scores_def predict_scores_body_def bind_exc_def)


end
